theory Spec2Isabelle
  imports Main "HOL-Library.Word"
begin

section \<open>Workflow controller configuration (pkg/workflow/controller/config.go)\<close>

subsection \<open>Constants\<close>

definition DevModeEnvName :: string where
  "DevModeEnvName = ''DEVELOP_MODE''"

definition ConfigFileKey :: string where
  "ConfigFileKey = ''workflow-controller.json''"

subsection \<open>Configuration types\<close>

text \<open>
  Go's \<open>int\<close> is taken at its 64-bit width, \<open>int64\<close> and \<open>time.Duration\<close> are 64-bit
  words; \<open>sint\<close> reads them as signed. A Go map is a partial function, a pointer that
  may be nil is an \<open>option\<close>. The type \<open>corev1.ResourceRequirements\<close> is declared in
  the Kubernetes API package, outside this repository; it is the type parameter \<open>'r\<close>.
\<close>

type_synonym go_int = "64 word"
type_synonym go_int64 = "64 word"

record LoggingConfig =
  Level :: string

record ExecutionContext =
  Namespace :: string
  PVC :: string
  ServiceAccount :: string

record 'r GCConfig =
  Enabled :: bool
  DelaySeconds :: go_int64
  RetryCount :: go_int
  GCResourceRequirements :: 'r

record LimitsConfig =
  MaxWorkflowRuns :: go_int

record ParallelismConstraint =
  MaxParallel :: go_int64
  MaxQueueSize :: go_int64

record ParallelismConfig =
  Overall :: ParallelismConstraint
  SingleWorkflow :: ParallelismConstraint

record DindSettings =
  InsecureRegistries :: "string list"
  Bip :: string

record WorkersNumber =
  ExecutionCluster :: go_int
  WorkflowTrigger :: go_int
  WorkflowRun :: go_int
  Pod :: go_int

record 'r WorkflowControllerConfig =
  Images :: "string \<rightharpoonup> string"
  Logging :: LoggingConfig
  GC :: "'r GCConfig"
  Limits :: LimitsConfig
  Parallelism :: "ParallelismConfig option"
  ResourceRequirements :: 'r
  ExecutionContext :: ExecutionContext
  CycloneServerAddr :: string
  NotificationURL :: string
  DindSettings :: DindSettings
  WorkersNumber :: WorkersNumber

text \<open>The part of \<open>corev1.ConfigMap\<close> that \<open>LoadConfig\<close> reads: its name and its data.\<close>

record ConfigMap =
  Name :: string
  Data :: "string \<rightharpoonup> string"

subsection \<open>Errors, effects and the process state\<close>

text \<open>
  A Go \<open>error\<close> returned by \<open>LoadConfig\<close> is either built by \<open>fmt.Errorf\<close> (its
  message) or is the decoder's own error, of type \<open>'e\<close>, handed on as it is.
\<close>

datatype 'e error = Errorf string | UnmarshalError 'e

text \<open>
  The calls made to the logger are recorded in order. \<open>LogDebug\<close> carries the field
  set by \<open>WithField\<close>, the message and the error printed after it.

  Modelled from the spec: \<open>InitLogger\<close>, which is defined in another file of the
  package and initialises the process-wide logging verbosity from the logging
  configuration. Its call is recorded with the configuration it is given, and it
  returns.
\<close>

datatype 'e effect =
    LogWarn string
  | LogInfo string
  | LogDebug "string \<times> string" string 'e
  | InitLoggerCall LoggingConfig

text \<open>
  The package variable \<open>Config\<close> and the trace of effects. \<open>LoadConfig\<close> either
  returns its \<open>error\<close> (\<open>None\<close> is \<open>nil\<close>) or panics on a nil \<open>ConfigMap\<close> pointer.
\<close>

record ('r, 'e) world =
  Config :: "'r WorkflowControllerConfig"
  Effects :: "'e effect list"

datatype 'e outcome = Panic | Return "'e error option"

subsection \<open>validate, defaultValues, LoadConfig\<close>

definition pvc_warning :: string where
  "pvc_warning =
     ''PVC not configured, resources won't be shared among stages and artifacts unsupported.''"

definition validate ::
  "'r WorkflowControllerConfig \<Rightarrow> 'e effect list \<Rightarrow> bool \<times> 'e effect list" where
  "validate config lg =
     (let lg1 = (if PVC (ExecutionContext config) = [] then lg @ [LogWarn pvc_warning] else lg)
      in (True, lg1))"

definition default_info :: "string \<Rightarrow> string" where
  "default_info field =
     ''WorkersNumber.'' @ field @ '' not configured, will use default value '' @
     [CHR 0x27] @ ''1'' @ [CHR 0x27]"

definition defaultValues ::
  "'r WorkflowControllerConfig \<Rightarrow> 'e effect list \<Rightarrow> 'r WorkflowControllerConfig \<times> 'e effect list" where
  "defaultValues config lg =
     (let (c1, l1) =
            (if ExecutionCluster (WorkersNumber config) = 0
             then (config\<lparr>WorkersNumber := (WorkersNumber config)\<lparr>ExecutionCluster := 1\<rparr>\<rparr>,
                   lg @ [LogInfo (default_info ''ExecutionCluster'')])
             else (config, lg));
          (c2, l2) =
            (if Pod (WorkersNumber c1) = 0
             then (c1\<lparr>WorkersNumber := (WorkersNumber c1)\<lparr>Pod := 1\<rparr>\<rparr>,
                   l1 @ [LogInfo (default_info ''Pod'')])
             else (c1, l1));
          (c3, l3) =
            (if WorkflowTrigger (WorkersNumber c2) = 0
             then (c2\<lparr>WorkersNumber := (WorkersNumber c2)\<lparr>WorkflowTrigger := 1\<rparr>\<rparr>,
                   l2 @ [LogInfo (default_info ''WorkflowTrigger'')])
             else (c2, l2));
          (c4, l4) =
            (if WorkflowRun (WorkersNumber c3) = 0
             then (c3\<lparr>WorkersNumber := (WorkersNumber c3)\<lparr>WorkflowRun := 1\<rparr>\<rparr>,
                   l3 @ [LogInfo (default_info ''WorkflowRun'')])
             else (c3, l3))
      in (c4, l4))"

definition missing_key_message :: "string \<Rightarrow> string" where
  "missing_key_message name =
     ''ConfigMap '' @ [CHR 0x27] @ name @ [CHR 0x27] @ '' doesn't have data key '' @
     [CHR 0x27] @ ConfigFileKey @ [CHR 0x27]"

text \<open>
  \<open>json.Unmarshal\<close> belongs to Go's standard library. It is the parameter \<open>unmarshal\<close>:
  given the payload and the current value of the target it returns its error
  (\<open>None\<close> is \<open>nil\<close>) and the value it leaves in the target. The target is the package
  variable \<open>Config\<close> itself, so whatever the decoder leaves there is the new \<open>Config\<close>,
  also when it reports an error.
\<close>

type_synonym ('r, 'e) unmarshal =
  "string \<Rightarrow> 'r WorkflowControllerConfig \<Rightarrow> 'e option \<times> 'r WorkflowControllerConfig"

definition LoadConfig ::
  "('r, 'e) unmarshal \<Rightarrow> ConfigMap option \<Rightarrow> ('r, 'e) world \<Rightarrow> 'e outcome \<times> ('r, 'e) world" where
  "LoadConfig unmarshal cm w =
     (case cm of
        None \<Rightarrow> (Panic, w)
      | Some m \<Rightarrow>
          (case Data m ConfigFileKey of
             None \<Rightarrow> (Return (Some (Errorf (missing_key_message (Name m)))), w)
           | Some data \<Rightarrow>
               (case unmarshal data (Config w) of
                  (Some err, c1) \<Rightarrow>
                    (Return (Some (UnmarshalError err)),
                     w\<lparr>Config := c1,
                       Effects := Effects w @
                         [LogDebug (''data'', data) ''Unmarshal config data error: '' err]\<rparr>)
                | (None, c1) \<Rightarrow>
                    (case validate c1 (Effects w) of
                       (ok, l1) \<Rightarrow>
                         if \<not> ok
                         then (Return (Some (Errorf ''validate config failed'')),
                               w\<lparr>Config := c1, Effects := l1\<rparr>)
                         else (case defaultValues c1 l1 of
                                 (c2, l2) \<Rightarrow>
                                   (Return None,
                                    w\<lparr>Config := c2,
                                      Effects := l2 @ [InitLoggerCall (Logging c2)]\<rparr>))))))"

subsection \<open>ImagePullPolicy\<close>

datatype PullPolicy = PullAlways | PullNever | PullIfNotPresent

text \<open>\<open>os.Getenv\<close> returns the empty string for a variable that is not set.\<close>

definition Getenv :: "(string \<rightharpoonup> string) \<Rightarrow> string \<Rightarrow> string" where
  "Getenv env k = (case env k of None \<Rightarrow> [] | Some v \<Rightarrow> v)"

definition ImagePullPolicy :: "(string \<rightharpoonup> string) \<Rightarrow> PullPolicy" where
  "ImagePullPolicy env =
     (if Getenv env DevModeEnvName = ''true'' then PullAlways else PullIfNotPresent)"

subsection \<open>The initial state and sample inputs\<close>

text \<open>
  \<open>var Config WorkflowControllerConfig\<close> starts as Go's zero value: empty strings, zero
  numbers, nil map, slice and pointer. The zero value of the Kubernetes type is the
  argument \<open>r0\<close>.
\<close>

definition zero_config :: "'r \<Rightarrow> 'r WorkflowControllerConfig" where
  "zero_config r0 =
     \<lparr>Images = Map.empty, Logging = \<lparr>Level = []\<rparr>,
      GC = \<lparr>Enabled = False, DelaySeconds = 0, RetryCount = 0, GCResourceRequirements = r0\<rparr>,
      Limits = \<lparr>MaxWorkflowRuns = 0\<rparr>, Parallelism = None, ResourceRequirements = r0,
      ExecutionContext = \<lparr>Namespace = [], PVC = [], ServiceAccount = []\<rparr>,
      CycloneServerAddr = [], NotificationURL = [],
      DindSettings = \<lparr>InsecureRegistries = [], Bip = []\<rparr>,
      WorkersNumber = \<lparr>ExecutionCluster = 0, WorkflowTrigger = 0, WorkflowRun = 0, Pod = 0\<rparr>\<rparr>"

definition initial_world :: "'r \<Rightarrow> ('r, 'e) world" where
  "initial_world r0 = \<lparr>Config = zero_config r0, Effects = []\<rparr>"

text \<open>
  The general results below hold for every decoder. Concrete runs need one, so the
  behaviour of \<open>encoding/json\<close> is tabulated on four payloads, following its
  documentation: a member of the JSON object is stored in the struct field with that
  tag, fields that the payload does not name keep the value the target had, and a value
  of the wrong JSON type for its field (a string where \<open>workers_number\<close> wants an
  object) is skipped while decoding goes on, with an \<open>UnmarshalTypeError\<close> returned
  at the end. Any other payload is outside the table and is answered with the marker
  \<open>NotTabulated\<close>; no result below evaluates the table there.
\<close>

datatype json_error = UnmarshalTypeError | NotTabulated

definition payload_a :: string where
  \<open>payload_a = ''{"cyclone_server_addr":"http://a"}''\<close>

definition payload_b :: string where
  \<open>payload_b = ''{"cyclone_server_addr":"http://b"}''\<close>

definition payload_bad :: string where
  \<open>payload_bad = ''{"cyclone_server_addr":"http://b","workers_number":"many"}''\<close>

definition payload_neg :: string where
  \<open>payload_neg = ''{"execution_context":{"pvc":"vol"},"workers_number":{"execution_cluster":-1,"workflow_run":3}}''\<close>

definition payload_all_neg :: string where
  \<open>payload_all_neg = ''{"workers_number":{"execution_cluster":-1,"workflow_trigger":-2,"workflow_run":-3,"pod":-4}}''\<close>

definition sample_unmarshal :: "('r, json_error) unmarshal" where
  "sample_unmarshal payload target =
     (if payload = payload_a then (None, target\<lparr>CycloneServerAddr := ''http://a''\<rparr>)
      else if payload = payload_b then (None, target\<lparr>CycloneServerAddr := ''http://b''\<rparr>)
      else if payload = payload_bad
        then (Some UnmarshalTypeError, target\<lparr>CycloneServerAddr := ''http://b''\<rparr>)
      else if payload = payload_neg
        then (None,
              target\<lparr>ExecutionContext := (ExecutionContext target)\<lparr>PVC := ''vol''\<rparr>,
                     WorkersNumber := (WorkersNumber target)\<lparr>ExecutionCluster := - 1,
                                                             WorkflowRun := 3\<rparr>\<rparr>)
      else if payload = payload_all_neg
        then (None,
              target\<lparr>WorkersNumber := (WorkersNumber target)\<lparr>ExecutionCluster := - 1,
                         WorkflowTrigger := - 2, WorkflowRun := - 3, Pod := - 4\<rparr>\<rparr>)
      else (Some NotTabulated, target))"

definition sample_cm :: "string \<Rightarrow> ConfigMap" where
  "sample_cm payload =
     \<lparr>Name = ''workflow-controller-config'', Data = [ConfigFileKey \<mapsto> payload]\<rparr>"

definition empty_cm :: ConfigMap where
  "empty_cm = \<lparr>Name = ''workflow-controller-config'', Data = Map.empty\<rparr>"

text \<open>The state after a first, successful load of \<open>payload_a\<close> at process start.\<close>

definition world_after_a :: "(unit, json_error) world" where
  "world_after_a =
     snd (LoadConfig sample_unmarshal (Some (sample_cm payload_a)) (initial_world ()))"

section \<open>Admission control under the parallelism constraints\<close>

text \<open>
  Modelled from the spec: the AdmissionController. Its code is not among the source
  files; config.go declares only \<open>ParallelismConstraint\<close> and \<open>ParallelismConfig\<close>,
  the limits it enforces. A run has an identifier, a workflow and a state
  (\<open>Pending\<close>, then \<open>Queued\<close>, then \<open>Running\<close>, then one of the terminal states). The
  controller keeps two counters of running executions (one global, one per workflow, a
  workflow not seen yet counting 0) and two FIFO queues of waiting runs (one global, one
  per workflow).
\<close>

datatype RunState = Pending | Queued | Running | Completed | Failed | Cancelled

definition terminal :: "RunState \<Rightarrow> bool" where
  "terminal st \<longleftrightarrow> st = Completed \<or> st = Failed \<or> st = Cancelled"

record WorkflowRunRecord =
  run_id :: nat
  workflowID :: nat
  state :: RunState

text \<open>
  Modelled from the spec: a run is owned by the controller while it is not terminal. A
  run the controller has taken over is kept with one more bit, \<open>holds_slot\<close>: it is set
  when the run is admitted and cleared by \<open>NotifyCompletion\<close>. It records the callers'
  obligation that \<open>NotifyCompletion\<close> is called exactly once for a run that reached a
  terminal state from \<open>Running\<close>.
\<close>

record TrackedRun = WorkflowRunRecord +
  holds_slot :: bool

record admission =
  runningGlobal :: int
  runningPerWorkflow :: "nat \<Rightarrow> int"
  queueGlobal :: "nat list"
  queuePerWorkflow :: "nat \<Rightarrow> nat list"
  runs :: "TrackedRun list"

definition init_admission :: admission where
  "init_admission =
     \<lparr>runningGlobal = 0, runningPerWorkflow = (\<lambda>_. 0), queueGlobal = [],
      queuePerWorkflow = (\<lambda>_. []), runs = []\<rparr>"

datatype RejectReason = QueueFull

text \<open>The result \<open>Enqueued\<close> is the description's result ``Queued''.\<close>

datatype AdmissionResult = Admitted | Enqueued | Rejected RejectReason

definition can_admit :: "ParallelismConfig \<Rightarrow> nat \<Rightarrow> admission \<Rightarrow> bool" where
  "can_admit p wid s \<longleftrightarrow>
     runningGlobal s < sint (MaxParallel (Overall p)) \<and>
     runningPerWorkflow s wid < sint (MaxParallel (SingleWorkflow p))"

definition can_enqueue :: "ParallelismConfig \<Rightarrow> nat \<Rightarrow> admission \<Rightarrow> bool" where
  "can_enqueue p wid s \<longleftrightarrow>
     int (length (queueGlobal s)) < sint (MaxQueueSize (Overall p)) \<and>
     int (length (queuePerWorkflow s wid)) < sint (MaxQueueSize (SingleWorkflow p))"

definition count_up :: "nat \<Rightarrow> admission \<Rightarrow> admission" where
  "count_up wid s =
     s\<lparr>runningGlobal := runningGlobal s + 1,
       runningPerWorkflow := (runningPerWorkflow s)(wid := runningPerWorkflow s wid + 1)\<rparr>"

definition count_down :: "nat \<Rightarrow> admission \<Rightarrow> admission" where
  "count_down wid s =
     s\<lparr>runningGlobal := runningGlobal s - 1,
       runningPerWorkflow := (runningPerWorkflow s)(wid := runningPerWorkflow s wid - 1)\<rparr>"

definition track :: "WorkflowRunRecord \<Rightarrow> RunState \<Rightarrow> bool \<Rightarrow> TrackedRun" where
  "track r st b = \<lparr>run_id = run_id r, workflowID = workflowID r, state = st, holds_slot = b\<rparr>"

definition find_run :: "nat \<Rightarrow> TrackedRun list \<Rightarrow> TrackedRun option" where
  "find_run rid rs = find (\<lambda>t. run_id t = rid) rs"

definition set_run :: "nat \<Rightarrow> RunState \<Rightarrow> bool \<Rightarrow> TrackedRun list \<Rightarrow> TrackedRun list" where
  "set_run rid st b rs =
     map (\<lambda>t. if run_id t = rid then t\<lparr>state := st, holds_slot := b\<rparr> else t) rs"

definition set_state :: "nat \<Rightarrow> RunState \<Rightarrow> TrackedRun list \<Rightarrow> TrackedRun list" where
  "set_state rid st rs = map (\<lambda>t. if run_id t = rid then t\<lparr>state := st\<rparr> else t) rs"

definition release :: "nat \<Rightarrow> TrackedRun list \<Rightarrow> TrackedRun list" where
  "release rid rs = map (\<lambda>t. if run_id t = rid then t\<lparr>holds_slot := False\<rparr> else t) rs"

text \<open>
  Modelled from the spec: \<open>RequestAdmission\<close> of the AdmissionController, which is not in
  the source files. Step 1 admits when both counters are below their \<open>MaxParallel\<close>:
  both are incremented and the run becomes \<open>Running\<close>. Step 2 otherwise enqueues the run
  in both queues when both are below their \<open>MaxQueueSize\<close>: the run becomes \<open>Queued\<close>.
  Step 3 otherwise rejects with \<open>QueueFull\<close> and leaves the run \<open>Pending\<close> and the
  controller unchanged.
\<close>

definition RequestAdmission ::
  "ParallelismConfig \<Rightarrow> WorkflowRunRecord \<Rightarrow> admission \<Rightarrow> AdmissionResult \<times> admission" where
  "RequestAdmission p r s =
     (if can_admit p (workflowID r) s
      then (Admitted, (count_up (workflowID r) s)\<lparr>runs := runs s @ [track r Running True]\<rparr>)
      else if can_enqueue p (workflowID r) s
      then (Enqueued,
            s\<lparr>queueGlobal := queueGlobal s @ [run_id r],
              queuePerWorkflow := (queuePerWorkflow s)
                (workflowID r := queuePerWorkflow s (workflowID r) @ [run_id r]),
              runs := runs s @ [track r Queued False]\<rparr>)
      else (Rejected QueueFull, s))"

text \<open>
  Modelled from the spec: the promotion of waiting runs inside \<open>NotifyCompletion\<close>. The
  candidates are taken in the order of the global queue; for each one both capacity
  conditions are checked again against the current counters; a candidate that passes
  is removed from both queues and admitted as in step 1, one that does not stays queued
  and the scan goes on, so that a run of an unsaturated workflow can overtake an older
  run whose workflow is at its cap.
\<close>

definition admit_queued :: "nat \<Rightarrow> nat \<Rightarrow> admission \<Rightarrow> admission" where
  "admit_queued rid wid s =
     (count_up wid s)\<lparr>queueGlobal := remove1 rid (queueGlobal s),
                     queuePerWorkflow := (queuePerWorkflow s)
                       (wid := remove1 rid (queuePerWorkflow s wid)),
                     runs := set_run rid Running True (runs s)\<rparr>"

fun promote :: "ParallelismConfig \<Rightarrow> nat list \<Rightarrow> admission \<Rightarrow> admission" where
  "promote p [] s = s"
| "promote p (rid # rest) s =
     (case find_run rid (runs s) of
        None \<Rightarrow> promote p rest s
      | Some t \<Rightarrow>
          if can_admit p (workflowID t) s
          then promote p rest (admit_queued rid (workflowID t) s)
          else promote p rest s)"

text \<open>
  Modelled from the spec: \<open>NotifyCompletion\<close> of the AdmissionController, which is not in
  the source files. Both counters are decremented, the run gives its slot back, then
  waiting runs are promoted.
\<close>

definition NotifyCompletion :: "ParallelismConfig \<Rightarrow> TrackedRun \<Rightarrow> admission \<Rightarrow> admission" where
  "NotifyCompletion p r s =
     (let s1 = (count_down (workflowID r) s)\<lparr>runs := release (run_id r) (runs s)\<rparr>
      in promote p (queueGlobal s1) s1)"

text \<open>
  Modelled from the spec: what the collaborators do, in any order: request admission for a run the controller
  has not taken over (a new run, or one rejected before, in state \<open>Pending\<close>); move a
  \<open>Running\<close> run to a terminal state; notify the completion of a run that is terminal
  and still holds its slot. \<open>step\<close> is \<open>None\<close> for a call outside this contract, and
  \<open>exec\<close> runs a sequence of calls, each one atomic.
\<close>

datatype call =
    CallRequestAdmission nat nat
  | RunTerminates nat RunState
  | CallNotifyCompletion nat

fun step :: "ParallelismConfig \<Rightarrow> call \<Rightarrow> admission \<Rightarrow> admission option" where
  "step p (CallRequestAdmission rid wid) s =
     (if rid \<in> set (map run_id (runs s)) then None
      else Some (snd (RequestAdmission p \<lparr>run_id = rid, workflowID = wid, state = Pending\<rparr> s)))"
| "step p (RunTerminates rid st) s =
     (case find_run rid (runs s) of
        None \<Rightarrow> None
      | Some t \<Rightarrow>
          if state t = Running \<and> terminal st
          then Some (s\<lparr>runs := set_state rid st (runs s)\<rparr>)
          else None)"
| "step p (CallNotifyCompletion rid) s =
     (case find_run rid (runs s) of
        None \<Rightarrow> None
      | Some t \<Rightarrow>
          if terminal (state t) \<and> holds_slot t then Some (NotifyCompletion p t s) else None)"

fun exec :: "ParallelismConfig \<Rightarrow> call list \<Rightarrow> admission \<Rightarrow> admission option" where
  "exec p [] s = Some s"
| "exec p (c # cs) s = (case step p c s of None \<Rightarrow> None | Some s' \<Rightarrow> exec p cs s')"

text \<open>The runs in state \<open>Running\<close>, and those of one workflow.\<close>

definition running_runs :: "admission \<Rightarrow> TrackedRun list" where
  "running_runs s = filter (\<lambda>t. state t = Running) (runs s)"

definition running_runs_of :: "nat \<Rightarrow> admission \<Rightarrow> TrackedRun list" where
  "running_runs_of wid s = filter (\<lambda>t. state t = Running \<and> workflowID t = wid) (runs s)"

text \<open>
  The slots held by the runs of the workflows in \<open>W\<close>, and the invariant that ties the
  runs to the counters and the counters to the limits.
\<close>

definition slots_in :: "nat set \<Rightarrow> TrackedRun list \<Rightarrow> nat" where
  "slots_in W rs = length (filter (\<lambda>t. holds_slot t \<and> workflowID t \<in> W) rs)"

definition adm_inv :: "ParallelismConfig \<Rightarrow> admission \<Rightarrow> bool" where
  "adm_inv p s \<longleftrightarrow>
     distinct (map run_id (runs s)) \<and>
     (\<forall>t \<in> set (runs s). state t = Running \<longrightarrow> holds_slot t) \<and>
     int (slots_in UNIV (runs s)) \<le> runningGlobal s \<and>
     (\<forall>wid. int (slots_in {wid} (runs s)) \<le> runningPerWorkflow s wid) \<and>
     runningGlobal s \<le> sint (MaxParallel (Overall p)) \<and>
     (\<forall>wid. runningPerWorkflow s wid \<le> sint (MaxParallel (SingleWorkflow p)))"

text \<open>The limits of the description's worked example, and its sequence of calls.\<close>

definition example_limits :: ParallelismConfig where
  "example_limits =
     \<lparr>Overall = \<lparr>MaxParallel = 2, MaxQueueSize = 1\<rparr>,
      SingleWorkflow = \<lparr>MaxParallel = 2, MaxQueueSize = 1\<rparr>\<rparr>"

definition example_calls :: "call list" where
  "example_calls =
     [CallRequestAdmission 1 7, CallRequestAdmission 2 7, CallRequestAdmission 3 7,
      CallRequestAdmission 4 7, RunTerminates 1 Completed, CallNotifyCompletion 1]"

text \<open>
  Requests made one after the other, with their results; and the limits of the
  description's second example (a per-workflow limit of 1 under a global limit of 10).
\<close>

fun request_all ::
  "ParallelismConfig \<Rightarrow> (nat \<times> nat) list \<Rightarrow> admission \<Rightarrow> AdmissionResult list \<times> admission" where
  "request_all p [] s = ([], s)"
| "request_all p ((rid, wid) # rest) s =
     (case RequestAdmission p \<lparr>run_id = rid, workflowID = wid, state = Pending\<rparr> s of
        (res, s1) \<Rightarrow> (case request_all p rest s1 of (ress, s2) \<Rightarrow> (res # ress, s2)))"

definition second_limits :: ParallelismConfig where
  "second_limits =
     \<lparr>Overall = \<lparr>MaxParallel = 10, MaxQueueSize = 10\<rparr>,
      SingleWorkflow = \<lparr>MaxParallel = 1, MaxQueueSize = 10\<rparr>\<rparr>"

section \<open>Properties of the configuration loader\<close>

subsection \<open>Auxiliary facts\<close>

lemma validate_True: "fst (validate c l) = True"
  by (simp add: validate_def Let_def)

lemma validate_log:
  "snd (validate c l) = (if PVC (ExecutionContext c) = [] then l @ [LogWarn pvc_warning] else l)"
  by (simp add: validate_def Let_def)

lemma defaultValues_config:
  "fst (defaultValues c l) =
     c\<lparr>WorkersNumber := (WorkersNumber c)\<lparr>
         ExecutionCluster := (if ExecutionCluster (WorkersNumber c) = 0 then 1
                              else ExecutionCluster (WorkersNumber c)),
         WorkflowTrigger := (if WorkflowTrigger (WorkersNumber c) = 0 then 1
                             else WorkflowTrigger (WorkersNumber c)),
         WorkflowRun := (if WorkflowRun (WorkersNumber c) = 0 then 1
                         else WorkflowRun (WorkersNumber c)),
         Pod := (if Pod (WorkersNumber c) = 0 then 1 else Pod (WorkersNumber c))\<rparr>\<rparr>"
  by (simp add: defaultValues_def Let_def split: prod.splits)

lemma defaultValues_log:
  "\<exists>ls. snd (defaultValues c l) = l @ ls \<and> (\<forall>e \<in> set ls. \<exists>s. e = LogInfo s)"
  by (simp add: defaultValues_def Let_def split: prod.splits)

lemma defaultValues_idem: "fst (defaultValues (fst (defaultValues c l)) l') = fst (defaultValues c l)"
  by (simp add: defaultValues_config)

lemma LoadConfig_success:
  assumes "Data m ConfigFileKey = Some payload" and "unmarshal payload (Config w) = (None, c)"
  shows "LoadConfig unmarshal (Some m) w =
           (Return None,
            w\<lparr>Config := fst (defaultValues c (snd (validate c (Effects w)))),
              Effects := snd (defaultValues c (snd (validate c (Effects w)))) @
                 [InitLoggerCall (Logging (fst (defaultValues c (snd (validate c (Effects w))))))]\<rparr>)"
proof -
  obtain ok l1 where v: "validate c (Effects w) = (ok, l1)"
    by (cases "validate c (Effects w)")
  with validate_True [of c "Effects w"] have ok: "ok" by simp
  obtain c2 l2 where d: "defaultValues c l1 = (c2, l2)"
    by (cases "defaultValues c l1")
  show ?thesis using assms v ok d by (simp add: LoadConfig_def)
qed

lemma LoadConfig_Some_cases:
  "(Data m ConfigFileKey = None \<and>
      LoadConfig unmarshal (Some m) w = (Return (Some (Errorf (missing_key_message (Name m)))), w)) \<or>
   (\<exists>payload err c. Data m ConfigFileKey = Some payload \<and>
      unmarshal payload (Config w) = (Some err, c) \<and>
      LoadConfig unmarshal (Some m) w =
        (Return (Some (UnmarshalError err)),
         w\<lparr>Config := c,
           Effects := Effects w @
             [LogDebug (''data'', payload) ''Unmarshal config data error: '' err]\<rparr>)) \<or>
   (\<exists>payload c. Data m ConfigFileKey = Some payload \<and>
      unmarshal payload (Config w) = (None, c) \<and>
      fst (LoadConfig unmarshal (Some m) w) = Return None \<and>
      Config (snd (LoadConfig unmarshal (Some m) w)) =
        fst (defaultValues c (snd (validate c (Effects w)))))"
proof (cases "Data m ConfigFileKey")
  case None
  then show ?thesis by (simp add: LoadConfig_def)
next
  case (Some payload)
  obtain r c where u: "unmarshal payload (Config w) = (r, c)"
    by (cases "unmarshal payload (Config w)")
  show ?thesis
  proof (cases r)
    case None
    with Some u LoadConfig_success [of m payload unmarshal w c] show ?thesis by simp
  next
    case (Some err)
    with \<open>Data m ConfigFileKey = Some payload\<close> u show ?thesis by (simp add: LoadConfig_def)
  qed
qed

lemma sint_neg_nonzero: "sint (n :: go_int) < 0 \<Longrightarrow> n \<noteq> 0"
  by auto

lemma sample_unmarshal_a:
  "sample_unmarshal payload_a t = (None, t\<lparr>CycloneServerAddr := ''http://a''\<rparr>)"
  by (simp add: sample_unmarshal_def)

lemma sample_unmarshal_b:
  "sample_unmarshal payload_b t = (None, t\<lparr>CycloneServerAddr := ''http://b''\<rparr>)"
  by (simp add: sample_unmarshal_def payload_a_def payload_b_def)

lemma sample_unmarshal_bad:
  "sample_unmarshal payload_bad t =
     (Some UnmarshalTypeError, t\<lparr>CycloneServerAddr := ''http://b''\<rparr>)"
  by (simp add: sample_unmarshal_def payload_a_def payload_b_def payload_bad_def)

lemma sample_unmarshal_neg:
  "sample_unmarshal payload_neg t =
     (None, t\<lparr>ExecutionContext := (ExecutionContext t)\<lparr>PVC := ''vol''\<rparr>,
              WorkersNumber := (WorkersNumber t)\<lparr>ExecutionCluster := - 1, WorkflowRun := 3\<rparr>\<rparr>)"
  by (simp add: sample_unmarshal_def payload_a_def payload_b_def payload_bad_def payload_neg_def)

lemma sample_unmarshal_all_neg:
  "sample_unmarshal payload_all_neg t =
     (None, t\<lparr>WorkersNumber := (WorkersNumber t)\<lparr>ExecutionCluster := - 1,
                WorkflowTrigger := - 2, WorkflowRun := - 3, Pod := - 4\<rparr>\<rparr>)"
  by (simp add: sample_unmarshal_def payload_a_def payload_b_def payload_bad_def payload_neg_def
      payload_all_neg_def)

lemma sample_cm_data: "Data (sample_cm payload) ConfigFileKey = Some payload"
  by (simp add: sample_cm_def)

lemma empty_cm_data: "Data empty_cm ConfigFileKey = None"
  by (simp add: empty_cm_def)

subsection \<open>Failure of the load\<close>

text \<open>
  Claim C1. For a ConfigMap whose data has no entry under \<open>workflow-controller.json\<close>,
  \<open>LoadConfig\<close> returns the error built from the ConfigMap's name and the key, whatever
  the decoder is, and the state (the variable \<open>Config\<close> and the trace of log and
  \<open>InitLogger\<close> calls) is exactly the state before the call: nothing was decoded,
  validated or defaulted.
\<close>

theorem LoadConfig_missing_key:
  "Data m ConfigFileKey = None \<Longrightarrow>
   LoadConfig unmarshal (Some m) w = (Return (Some (Errorf (missing_key_message (Name m)))), w)"
  by (simp add: LoadConfig_def)

theorem LoadConfig_missing_key_witness:
  "Data empty_cm ConfigFileKey = None \<and>
   LoadConfig sample_unmarshal (Some empty_cm) (initial_world ()) =
     (Return (Some (Errorf
        (''ConfigMap '' @ [CHR 0x27] @ ''workflow-controller-config'' @ [CHR 0x27] @
         '' doesn't have data key '' @ [CHR 0x27] @ ''workflow-controller.json'' @ [CHR 0x27]))),
      initial_world ())"
  using LoadConfig_missing_key [of empty_cm sample_unmarshal "initial_world ()"]
  by (simp add: empty_cm_def missing_key_message_def ConfigFileKey_def)

text \<open>
  Claim C2. When the key is present and the decoder reports an error on its payload,
  \<open>LoadConfig\<close> returns that error.
\<close>

theorem LoadConfig_malformed:
  "Data m ConfigFileKey = Some payload \<Longrightarrow> unmarshal payload (Config w) = (Some err, c) \<Longrightarrow>
   fst (LoadConfig unmarshal (Some m) w) = Return (Some (UnmarshalError err))"
  by (simp add: LoadConfig_def)

theorem LoadConfig_malformed_witness:
  "Data (sample_cm payload_bad) ConfigFileKey = Some payload_bad \<and>
   sample_unmarshal payload_bad (Config (initial_world ())) =
     (Some UnmarshalTypeError, (zero_config ())\<lparr>CycloneServerAddr := ''http://b''\<rparr>) \<and>
   fst (LoadConfig sample_unmarshal (Some (sample_cm payload_bad)) (initial_world ())) =
     Return (Some (UnmarshalError UnmarshalTypeError))"
proof -
  have d: "Data (sample_cm payload_bad) ConfigFileKey = Some payload_bad"
    by (rule sample_cm_data)
  have u: "sample_unmarshal payload_bad (Config (initial_world ())) =
     (Some UnmarshalTypeError, (zero_config ())\<lparr>CycloneServerAddr := ''http://b''\<rparr>)"
    by (simp add: sample_unmarshal_bad initial_world_def)
  from LoadConfig_malformed [of "sample_cm payload_bad" payload_bad sample_unmarshal
      "initial_world ()", OF d u] d u
  show ?thesis by simp
qed

subsection \<open>Defaulting and validation\<close>

text \<open>
  Claim C3. When the key is present and the decoder succeeds, leaving \<open>c\<close> in \<open>Config\<close>,
  the load succeeds and \<open>Config\<close> is \<open>c\<close> with each of the four worker-pool sizes
  replaced by 1 if it is zero in \<open>c\<close> and kept otherwise. The new value of each size
  depends on that size alone, and no other field of \<open>c\<close> changes.
\<close>

theorem LoadConfig_defaults_workers:
  assumes "Data m ConfigFileKey = Some payload" and "unmarshal payload (Config w) = (None, c)"
  shows "fst (LoadConfig unmarshal (Some m) w) = Return None \<and>
         Config (snd (LoadConfig unmarshal (Some m) w)) =
           c\<lparr>WorkersNumber := (WorkersNumber c)\<lparr>
               ExecutionCluster := (if ExecutionCluster (WorkersNumber c) = 0 then 1
                                    else ExecutionCluster (WorkersNumber c)),
               WorkflowTrigger := (if WorkflowTrigger (WorkersNumber c) = 0 then 1
                                   else WorkflowTrigger (WorkersNumber c)),
               WorkflowRun := (if WorkflowRun (WorkersNumber c) = 0 then 1
                               else WorkflowRun (WorkersNumber c)),
               Pod := (if Pod (WorkersNumber c) = 0 then 1 else Pod (WorkersNumber c))\<rparr>\<rparr>"
  using LoadConfig_success [of m payload unmarshal w c, OF assms]
  by (simp add: defaultValues_config)

theorem LoadConfig_defaults_workers_witness:
  "Data (sample_cm payload_neg) ConfigFileKey = Some payload_neg \<and>
   fst (sample_unmarshal payload_neg (Config (initial_world ()))) = (None :: json_error option) \<and>
   fst (LoadConfig sample_unmarshal (Some (sample_cm payload_neg)) (initial_world ())) = Return None \<and>
   WorkersNumber (Config (snd (LoadConfig sample_unmarshal (Some (sample_cm payload_neg))
       (initial_world ())))) =
     \<lparr>ExecutionCluster = - 1, WorkflowTrigger = 1, WorkflowRun = 3, Pod = 1\<rparr>"
  using LoadConfig_defaults_workers [of "sample_cm payload_neg" payload_neg sample_unmarshal
      "initial_world ()" "snd (sample_unmarshal payload_neg (Config (initial_world ())))"]
  by (simp add: sample_cm_data sample_unmarshal_neg initial_world_def zero_config_def)

text \<open>
  Claim C4. When the key is present, the decoder succeeds and the decoded configuration
  has an empty \<open>ExecutionContext.PVC\<close>, the load succeeds: \<open>validate\<close> answers true and
  its only effect is the warning, which is in the trace after the load.
\<close>

theorem LoadConfig_without_PVC:
  assumes "Data m ConfigFileKey = Some payload" and "unmarshal payload (Config w) = (None, c)"
    and "PVC (ExecutionContext c) = []"
  shows "fst (LoadConfig unmarshal (Some m) w) = Return None \<and>
         validate c (Effects w) = (True, Effects w @ [LogWarn pvc_warning]) \<and>
         LogWarn pvc_warning \<in> set (Effects (snd (LoadConfig unmarshal (Some m) w)))"
proof -
  have v: "validate c (Effects w) = (True, Effects w @ [LogWarn pvc_warning])"
    using assms(3) by (simp add: validate_def)
  obtain ls where ls: "snd (defaultValues c (Effects w @ [LogWarn pvc_warning])) =
      (Effects w @ [LogWarn pvc_warning]) @ ls"
    using defaultValues_log [of c "Effects w @ [LogWarn pvc_warning]"] by blast
  from LoadConfig_success [of m payload unmarshal w c, OF assms(1,2)] v ls
  show ?thesis by simp
qed

theorem LoadConfig_without_PVC_witness:
  "Data (sample_cm payload_a) ConfigFileKey = Some payload_a \<and>
   sample_unmarshal payload_a (Config (initial_world ())) =
     (None :: json_error option, (zero_config ())\<lparr>CycloneServerAddr := ''http://a''\<rparr>) \<and>
   PVC (ExecutionContext ((zero_config ())\<lparr>CycloneServerAddr := ''http://a''\<rparr>)) = [] \<and>
   fst (LoadConfig sample_unmarshal (Some (sample_cm payload_a)) (initial_world ())) = Return None \<and>
   LogWarn pvc_warning \<in>
     set (Effects (snd (LoadConfig sample_unmarshal (Some (sample_cm payload_a))
       (initial_world () :: (unit, json_error) world))))"
proof -
  have d: "Data (sample_cm payload_a) ConfigFileKey = Some payload_a"
    by (rule sample_cm_data)
  have u: "sample_unmarshal payload_a (Config (initial_world ())) =
     (None :: json_error option, (zero_config ())\<lparr>CycloneServerAddr := ''http://a''\<rparr>)"
    by (simp add: sample_unmarshal_a initial_world_def)
  have p: "PVC (ExecutionContext ((zero_config ())\<lparr>CycloneServerAddr := ''http://a''\<rparr>)) = []"
    by (simp add: zero_config_def)
  from LoadConfig_without_PVC [of "sample_cm payload_a" payload_a sample_unmarshal
      "initial_world ()" "(zero_config ())\<lparr>CycloneServerAddr := ''http://a''\<rparr>", OF d u p] d u p
  show ?thesis by simp
qed

text \<open>
  Claim C9. \<open>validate\<close> answers true on every configuration. So whenever \<open>LoadConfig\<close>
  returns an error, the error is not ``validate config failed'': either the key is
  missing and the error is the missing-key message, or the key is present and the error
  is the one the decoder reported for its payload.
\<close>

theorem validate_always_accepts:
  "fst (validate c l) \<and>
   (LoadConfig unmarshal (Some m) w = (Return (Some e), w') \<longrightarrow>
      e \<noteq> Errorf ''validate config failed'' \<and>
      ((Data m ConfigFileKey = None \<and> e = Errorf (missing_key_message (Name m))) \<or>
       (\<exists>payload err. Data m ConfigFileKey = Some payload \<and>
          fst (unmarshal payload (Config w)) = Some err \<and> e = UnmarshalError err)))"
proof -
  have neq: "Errorf (missing_key_message (Name m)) \<noteq> Errorf ''validate config failed''"
    by (simp add: missing_key_message_def)
  from LoadConfig_Some_cases [of m unmarshal w] neq
  show ?thesis by (auto simp: validate_True)
qed

theorem validate_always_accepts_witness:
  "LoadConfig sample_unmarshal (Some (sample_cm payload_bad)) (initial_world ()) =
     (Return (Some (UnmarshalError UnmarshalTypeError)),
      \<lparr>Config = (zero_config ())\<lparr>CycloneServerAddr := ''http://b''\<rparr>,
       Effects = [LogDebug (''data'', payload_bad) ''Unmarshal config data error: ''
                    UnmarshalTypeError]\<rparr>) \<and>
   fst (validate (zero_config ()) ([] :: json_error effect list)) \<and>
   UnmarshalError UnmarshalTypeError \<noteq> Errorf ''validate config failed'' \<and>
   Data (sample_cm payload_bad) ConfigFileKey = Some payload_bad \<and>
   fst (sample_unmarshal payload_bad (Config (initial_world ()))) = Some UnmarshalTypeError"
proof -
  have run: "LoadConfig sample_unmarshal (Some (sample_cm payload_bad)) (initial_world ()) =
     (Return (Some (UnmarshalError UnmarshalTypeError)),
      \<lparr>Config = (zero_config ())\<lparr>CycloneServerAddr := ''http://b''\<rparr>,
       Effects = [LogDebug (''data'', payload_bad) ''Unmarshal config data error: ''
                    UnmarshalTypeError]\<rparr>)"
    by (simp add: LoadConfig_def sample_cm_data sample_unmarshal_bad initial_world_def)
  from validate_always_accepts [of "zero_config ()" "[] :: json_error effect list"
      sample_unmarshal "sample_cm payload_bad" "initial_world ()"
      "UnmarshalError UnmarshalTypeError"
      "\<lparr>Config = (zero_config ())\<lparr>CycloneServerAddr := ''http://b''\<rparr>,
        Effects = [LogDebug (''data'', payload_bad) ''Unmarshal config data error: ''
                     UnmarshalTypeError]\<rparr>"] run
  show ?thesis by (simp add: sample_cm_data sample_unmarshal_bad)
qed

text \<open>
  Claim C10. \<open>defaultValues\<close> replaces a worker-pool size only when it is zero: a size
  that is negative (read as a signed integer) is returned as it is, for each of the four
  sizes whatever the other three are.
\<close>

theorem defaultValues_keeps_negative:
  "(sint (ExecutionCluster (WorkersNumber c)) < 0 \<longrightarrow>
      ExecutionCluster (WorkersNumber (fst (defaultValues c l))) =
        ExecutionCluster (WorkersNumber c)) \<and>
   (sint (WorkflowTrigger (WorkersNumber c)) < 0 \<longrightarrow>
      WorkflowTrigger (WorkersNumber (fst (defaultValues c l))) =
        WorkflowTrigger (WorkersNumber c)) \<and>
   (sint (WorkflowRun (WorkersNumber c)) < 0 \<longrightarrow>
      WorkflowRun (WorkersNumber (fst (defaultValues c l))) = WorkflowRun (WorkersNumber c)) \<and>
   (sint (Pod (WorkersNumber c)) < 0 \<longrightarrow>
      Pod (WorkersNumber (fst (defaultValues c l))) = Pod (WorkersNumber c))"
  using sint_neg_nonzero by (simp add: defaultValues_config)

theorem defaultValues_keeps_negative_witness:
  "sint (ExecutionCluster (WorkersNumber (snd (sample_unmarshal payload_all_neg (zero_config ()))))) < 0 \<and>
   sint (WorkflowTrigger (WorkersNumber (snd (sample_unmarshal payload_all_neg (zero_config ()))))) < 0 \<and>
   sint (WorkflowRun (WorkersNumber (snd (sample_unmarshal payload_all_neg (zero_config ()))))) < 0 \<and>
   sint (Pod (WorkersNumber (snd (sample_unmarshal payload_all_neg (zero_config ()))))) < 0 \<and>
   WorkersNumber (fst (defaultValues (snd (sample_unmarshal payload_all_neg (zero_config ())))
       ([] :: json_error effect list))) =
     \<lparr>ExecutionCluster = - 1, WorkflowTrigger = - 2, WorkflowRun = - 3, Pod = - 4\<rparr> \<and>
   sint (ExecutionCluster (WorkersNumber (snd (sample_unmarshal payload_neg (zero_config ()))))) < 0 \<and>
   WorkersNumber (fst (defaultValues (snd (sample_unmarshal payload_neg (zero_config ())))
       ([] :: json_error effect list))) =
     \<lparr>ExecutionCluster = - 1, WorkflowTrigger = 1, WorkflowRun = 3, Pod = 1\<rparr>"
  using defaultValues_keeps_negative [of "snd (sample_unmarshal payload_all_neg (zero_config ()))"
      "[] :: json_error effect list"]
    defaultValues_keeps_negative [of "snd (sample_unmarshal payload_neg (zero_config ()))"
      "[] :: json_error effect list"]
  by (simp add: sample_unmarshal_all_neg sample_unmarshal_neg zero_config_def defaultValues_config)

subsection \<open>The image pull policy\<close>

text \<open>
  Claim C6. \<open>ImagePullPolicy\<close> depends on the environment alone: it is \<open>PullAlways\<close>
  when \<open>DEVELOP_MODE\<close> is set to \<open>true\<close>, and \<open>PullIfNotPresent\<close> when the variable is
  unset or has any other value.
\<close>

theorem ImagePullPolicy_env:
  "ImagePullPolicy env =
     (if env ''DEVELOP_MODE'' = Some ''true'' then PullAlways else PullIfNotPresent)"
  by (simp add: ImagePullPolicy_def Getenv_def DevModeEnvName_def split: option.splits)

theorem ImagePullPolicy_env_witness:
  "ImagePullPolicy [''DEVELOP_MODE'' \<mapsto> ''true''] = PullAlways \<and>
   ImagePullPolicy Map.empty = PullIfNotPresent \<and>
   ImagePullPolicy [''DEVELOP_MODE'' \<mapsto> ''TRUE''] = PullIfNotPresent \<and>
   ImagePullPolicy [''DEVELOP_MODE'' \<mapsto> ''1''] = PullIfNotPresent \<and>
   ImagePullPolicy [''DEVELOP_MODE'' \<mapsto> []] = PullIfNotPresent"
  using ImagePullPolicy_env [of "[''DEVELOP_MODE'' \<mapsto> ''true'']"]
    ImagePullPolicy_env [of Map.empty]
    ImagePullPolicy_env [of "[''DEVELOP_MODE'' \<mapsto> ''TRUE'']"]
    ImagePullPolicy_env [of "[''DEVELOP_MODE'' \<mapsto> ''1'']"]
    ImagePullPolicy_env [of "[''DEVELOP_MODE'' \<mapsto> []]"]
  by simp

subsection \<open>The state after a failed load, and after a second load\<close>

text \<open>
  Claim C5, as stated, fails: a payload whose \<open>workers_number\<close> has the wrong type makes
  the load fail after the decoder has already stored \<open>cyclone_server_addr\<close> in
  \<open>Config\<close>, so \<open>Config\<close> is not what it was before the call.
\<close>

theorem LoadConfig_failure_changes_Config:
  "fst (LoadConfig sample_unmarshal (Some (sample_cm payload_bad)) (initial_world ())) =
     Return (Some (UnmarshalError UnmarshalTypeError)) \<and>
   Config (snd (LoadConfig sample_unmarshal (Some (sample_cm payload_bad)) (initial_world ()))) \<noteq>
     Config (initial_world () :: (unit, json_error) world)"
  by (simp add: LoadConfig_def sample_cm_data sample_unmarshal_bad initial_world_def
      zero_config_def)

text \<open>
  Claim C5, amended. When \<open>LoadConfig\<close> returns an error, either the key is missing and
  the whole state is unchanged, or the decoder reported an error: then no validation,
  defaulting or logger initialisation has run, the only effect added is the debug log of
  the payload and the error, and \<open>Config\<close> holds exactly what the decoder left in its
  target (so it is unchanged precisely when the decoder left the target unchanged).
\<close>

theorem LoadConfig_failure_state:
  "LoadConfig unmarshal (Some m) w = (Return (Some e), w') \<Longrightarrow>
   (Data m ConfigFileKey = None \<and> w' = w) \<or>
   (\<exists>payload err. Data m ConfigFileKey = Some payload \<and>
      fst (unmarshal payload (Config w)) = Some err \<and>
      Config w' = snd (unmarshal payload (Config w)) \<and>
      Effects w' = Effects w @
        [LogDebug (''data'', payload) ''Unmarshal config data error: '' err])"
  using LoadConfig_Some_cases [of m unmarshal w] by auto

theorem LoadConfig_failure_state_witness:
  "LoadConfig sample_unmarshal (Some (sample_cm payload_bad)) (initial_world ()) =
     (Return (Some (UnmarshalError UnmarshalTypeError)),
      \<lparr>Config = (zero_config ())\<lparr>CycloneServerAddr := ''http://b''\<rparr>,
       Effects = [LogDebug (''data'', payload_bad) ''Unmarshal config data error: ''
                    UnmarshalTypeError]\<rparr>) \<and>
   Data (sample_cm payload_bad) ConfigFileKey = Some payload_bad \<and>
   sample_unmarshal payload_bad (Config (initial_world ())) =
     (Some UnmarshalTypeError, (zero_config ())\<lparr>CycloneServerAddr := ''http://b''\<rparr>)"
proof -
  have run: "LoadConfig sample_unmarshal (Some (sample_cm payload_bad)) (initial_world ()) =
     (Return (Some (UnmarshalError UnmarshalTypeError)),
      \<lparr>Config = (zero_config ())\<lparr>CycloneServerAddr := ''http://b''\<rparr>,
       Effects = [LogDebug (''data'', payload_bad) ''Unmarshal config data error: ''
                    UnmarshalTypeError]\<rparr>)"
    by (simp add: LoadConfig_def sample_cm_data sample_unmarshal_bad initial_world_def)
  from LoadConfig_failure_state [OF run] run
  show ?thesis by (simp add: sample_cm_data sample_unmarshal_bad initial_world_def)
qed

text \<open>
  Claim C7, as stated, fails: \<open>Config\<close> is written in place after a successful load,
  without any new validated configuration being produced. After a successful first
  load, a second call whose payload does not decode returns an error, and yet the
  decoder has already stored the payload's \<open>cyclone_server_addr\<close> in \<open>Config\<close>.
\<close>

theorem Config_mutated_by_failed_reload:
  "fst (LoadConfig sample_unmarshal (Some (sample_cm payload_a)) (initial_world ())) =
     (Return None :: json_error outcome) \<and>
   fst (LoadConfig sample_unmarshal (Some (sample_cm payload_bad)) world_after_a) =
     Return (Some (UnmarshalError UnmarshalTypeError)) \<and>
   CycloneServerAddr (Config world_after_a) = ''http://a'' \<and>
   CycloneServerAddr (Config (snd (LoadConfig sample_unmarshal (Some (sample_cm payload_bad))
       world_after_a))) = ''http://b'' \<and>
   Config (snd (LoadConfig sample_unmarshal (Some (sample_cm payload_bad)) world_after_a)) \<noteq>
     Config world_after_a"
proof -
  have a: "LoadConfig sample_unmarshal (Some (sample_cm payload_a)) (initial_world ()) =
      (Return None :: json_error outcome, world_after_a) \<and>
      CycloneServerAddr (Config world_after_a) = ''http://a''"
    unfolding world_after_a_def
    using LoadConfig_success [of "sample_cm payload_a" payload_a sample_unmarshal
        "initial_world () :: (unit, json_error) world", OF sample_cm_data sample_unmarshal_a]
    by (simp add: defaultValues_config)
  have b: "fst (LoadConfig sample_unmarshal (Some (sample_cm payload_bad)) world_after_a) =
      Return (Some (UnmarshalError UnmarshalTypeError)) \<and>
      CycloneServerAddr (Config (snd (LoadConfig sample_unmarshal (Some (sample_cm payload_bad))
        world_after_a))) = ''http://b''"
    by (simp add: LoadConfig_def sample_cm_data sample_unmarshal_bad)
  have "CycloneServerAddr (Config (snd (LoadConfig sample_unmarshal
      (Some (sample_cm payload_bad)) world_after_a))) \<noteq> CycloneServerAddr (Config world_after_a)"
    using a b by simp
  then have "Config (snd (LoadConfig sample_unmarshal (Some (sample_cm payload_bad))
      world_after_a)) \<noteq> Config world_after_a"
    by auto
  with a b show ?thesis by simp
qed

text \<open>
  Claim C7, amended. A successful \<open>LoadConfig\<close> stores in \<open>Config\<close> what the decoder
  left there, validated and with the worker-pool defaults applied, and applying
  \<open>defaultValues\<close> to the stored value again changes nothing. \<open>Config\<close> is not immutable
  thereafter: a later \<open>LoadConfig\<close> hands \<open>Config\<close> itself to the decoder as its target.
  If the key is missing the later call leaves the state unchanged; if the decoder
  reports an error the call fails and \<open>Config\<close> holds what the decoder left in it,
  neither validated nor defaulted; if the decoder succeeds \<open>Config\<close> holds the newly
  decoded value, validated and defaulted.
\<close>

theorem LoadConfig_reload_in_place:
  assumes "LoadConfig unmarshal (Some m) w = (Return None, w1)"
  shows "(\<exists>payload c. Data m ConfigFileKey = Some payload \<and>
            unmarshal payload (Config w) = (None, c) \<and> fst (validate c (Effects w)) \<and>
            Config w1 = fst (defaultValues c (snd (validate c (Effects w))))) \<and>
         fst (defaultValues (Config w1) l) = Config w1 \<and>
         ((Data m2 ConfigFileKey = None \<and> snd (LoadConfig unmarshal (Some m2) w1) = w1) \<or>
          (\<exists>payload err. Data m2 ConfigFileKey = Some payload \<and>
             fst (unmarshal payload (Config w1)) = Some err \<and>
             fst (LoadConfig unmarshal (Some m2) w1) = Return (Some (UnmarshalError err)) \<and>
             Config (snd (LoadConfig unmarshal (Some m2) w1)) =
               snd (unmarshal payload (Config w1))) \<or>
          (\<exists>payload c. Data m2 ConfigFileKey = Some payload \<and>
             unmarshal payload (Config w1) = (None, c) \<and>
             fst (LoadConfig unmarshal (Some m2) w1) = Return None \<and>
             Config (snd (LoadConfig unmarshal (Some m2) w1)) =
               fst (defaultValues c (snd (validate c (Effects w1))))))"
proof -
  from assms LoadConfig_Some_cases [of m unmarshal w]
  obtain payload c where pc: "Data m ConfigFileKey = Some payload"
      "unmarshal payload (Config w) = (None, c)"
      "Config w1 = fst (defaultValues c (snd (validate c (Effects w))))"
    by auto
  from pc(3) have idem: "fst (defaultValues (Config w1) l) = Config w1"
    by (simp add: defaultValues_idem)
  from pc have first: "\<exists>payload c. Data m ConfigFileKey = Some payload \<and>
      unmarshal payload (Config w) = (None, c) \<and> fst (validate c (Effects w)) \<and>
      Config w1 = fst (defaultValues c (snd (validate c (Effects w))))"
    by (auto simp: validate_True)
  have later: "(Data m2 ConfigFileKey = None \<and> snd (LoadConfig unmarshal (Some m2) w1) = w1) \<or>
      (\<exists>payload err. Data m2 ConfigFileKey = Some payload \<and>
         fst (unmarshal payload (Config w1)) = Some err \<and>
         fst (LoadConfig unmarshal (Some m2) w1) = Return (Some (UnmarshalError err)) \<and>
         Config (snd (LoadConfig unmarshal (Some m2) w1)) =
           snd (unmarshal payload (Config w1))) \<or>
      (\<exists>payload c. Data m2 ConfigFileKey = Some payload \<and>
         unmarshal payload (Config w1) = (None, c) \<and>
         fst (LoadConfig unmarshal (Some m2) w1) = Return None \<and>
         Config (snd (LoadConfig unmarshal (Some m2) w1)) =
           fst (defaultValues c (snd (validate c (Effects w1)))))"
    using LoadConfig_Some_cases [of m2 unmarshal w1] by auto
  from first idem later show ?thesis by blast
qed

theorem LoadConfig_reload_in_place_witness:
  "LoadConfig sample_unmarshal (Some (sample_cm payload_a)) (initial_world ()) =
     (Return None :: json_error outcome, world_after_a) \<and>
   Config world_after_a =
     (zero_config ())\<lparr>CycloneServerAddr := ''http://a'',
        WorkersNumber := \<lparr>ExecutionCluster = 1, WorkflowTrigger = 1, WorkflowRun = 1, Pod = 1\<rparr>\<rparr> \<and>
   fst (defaultValues (Config world_after_a) ([] :: json_error effect list)) =
     Config world_after_a \<and>
   Data (sample_cm payload_bad) ConfigFileKey = Some payload_bad \<and>
   fst (sample_unmarshal payload_bad (Config world_after_a)) = Some UnmarshalTypeError \<and>
   fst (LoadConfig sample_unmarshal (Some (sample_cm payload_bad)) world_after_a) =
     Return (Some (UnmarshalError UnmarshalTypeError)) \<and>
   Config (snd (LoadConfig sample_unmarshal (Some (sample_cm payload_bad)) world_after_a)) =
     (zero_config ())\<lparr>CycloneServerAddr := ''http://b'',
        WorkersNumber := \<lparr>ExecutionCluster = 1, WorkflowTrigger = 1, WorkflowRun = 1, Pod = 1\<rparr>\<rparr>"
proof -
  have run: "LoadConfig sample_unmarshal (Some (sample_cm payload_a)) (initial_world ()) =
     (Return None :: json_error outcome, world_after_a)"
    unfolding world_after_a_def
    using LoadConfig_success [of "sample_cm payload_a" payload_a sample_unmarshal
        "initial_world () :: (unit, json_error) world", OF sample_cm_data sample_unmarshal_a]
    by simp
  have cfg: "Config world_after_a =
     (zero_config ())\<lparr>CycloneServerAddr := ''http://a'',
        WorkersNumber := \<lparr>ExecutionCluster = 1, WorkflowTrigger = 1, WorkflowRun = 1, Pod = 1\<rparr>\<rparr>"
    unfolding world_after_a_def
    using LoadConfig_success [of "sample_cm payload_a" payload_a sample_unmarshal
        "initial_world () :: (unit, json_error) world", OF sample_cm_data sample_unmarshal_a]
    by (simp add: defaultValues_config initial_world_def zero_config_def)
  from LoadConfig_reload_in_place [OF run, of "[] :: json_error effect list"]
  have idem: "fst (defaultValues (Config world_after_a) ([] :: json_error effect list)) =
     Config world_after_a"
    by blast
  have bad: "fst (LoadConfig sample_unmarshal (Some (sample_cm payload_bad)) world_after_a) =
       Return (Some (UnmarshalError UnmarshalTypeError)) \<and>
     Config (snd (LoadConfig sample_unmarshal (Some (sample_cm payload_bad)) world_after_a)) =
       (Config world_after_a)\<lparr>CycloneServerAddr := ''http://b''\<rparr>"
    by (simp add: LoadConfig_def sample_cm_data sample_unmarshal_bad)
  from run cfg idem bad show ?thesis
    by (simp add: sample_cm_data sample_unmarshal_bad)
qed

section \<open>Properties of admission control\<close>

subsection \<open>The store of runs\<close>

lemma run_id_set_run [simp]: "map run_id (set_run rid st b rs) = map run_id rs"
  by (induction rs) (auto simp: set_run_def)

lemma run_id_set_state [simp]: "map run_id (set_state rid st rs) = map run_id rs"
  by (induction rs) (auto simp: set_state_def)

lemma run_id_release [simp]: "map run_id (release rid rs) = map run_id rs"
  by (induction rs) (auto simp: release_def)

lemma set_run_absent: "rid \<notin> set (map run_id rs) \<Longrightarrow> set_run rid st b rs = rs"
  by (induction rs) (auto simp: set_run_def)

lemma find_run_Some: "find_run rid rs = Some t \<Longrightarrow> t \<in> set rs \<and> run_id t = rid"
  by (induction rs) (auto simp: find_run_def split: if_splits)

lemma find_run_None: "find_run rid rs = None \<Longrightarrow> rid \<notin> set (map run_id rs)"
  by (induction rs) (auto simp: find_run_def split: if_splits)

lemma slots_in_append:
  "slots_in W (rs @ [e]) = slots_in W rs + (if holds_slot e \<and> workflowID e \<in> W then 1 else 0)"
  by (simp add: slots_in_def)

lemma slots_in_set_run:
  "distinct (map run_id rs) \<Longrightarrow> find_run rid rs = Some t \<Longrightarrow>
   slots_in W (set_run rid st b rs) \<le> slots_in W rs + (if workflowID t \<in> W then 1 else 0)"
proof (induction rs)
  case Nil
  then show ?case by (simp add: find_run_def)
next
  case (Cons a rs)
  show ?case
  proof (cases "run_id a = rid")
    case True
    with Cons.prems have "rid \<notin> set (map run_id rs)" and "t = a"
      by (auto simp: find_run_def)
    then have "set_run rid st b rs = rs"
      by (simp add: set_run_absent)
    moreover have "set_run rid st b (a # rs) =
        a\<lparr>state := st, holds_slot := b\<rparr> # set_run rid st b rs"
      using True by (simp add: set_run_def)
    ultimately have "set_run rid st b (a # rs) = a\<lparr>state := st, holds_slot := b\<rparr> # rs"
      by simp
    then show ?thesis using \<open>t = a\<close>
      by (simp add: slots_in_def)
  next
    case False
    with Cons.prems have "find_run rid rs = Some t" and "distinct (map run_id rs)"
      by (auto simp: find_run_def)
    with Cons.IH have "slots_in W (set_run rid st b rs) \<le>
        slots_in W rs + (if workflowID t \<in> W then 1 else 0)"
      by simp
    moreover have "set_run rid st b (a # rs) = a # set_run rid st b rs"
      using False by (simp add: set_run_def)
    ultimately show ?thesis by (auto simp: slots_in_def split: if_splits)
  qed
qed

lemma slots_in_set_state [simp]: "slots_in W (set_state rid st rs) = slots_in W rs"
  by (induction rs) (auto simp: set_state_def slots_in_def)

lemma slots_in_release_le: "slots_in W (release rid rs) \<le> slots_in W rs"
  by (induction rs) (auto simp: release_def slots_in_def)

lemma slots_in_release_less:
  "t \<in> set rs \<Longrightarrow> run_id t = rid \<Longrightarrow> holds_slot t \<Longrightarrow> workflowID t \<in> W \<Longrightarrow>
   Suc (slots_in W (release rid rs)) \<le> slots_in W rs"
proof (induction rs)
  case Nil
  then show ?case by simp
next
  case (Cons a rs)
  show ?case
  proof (cases "t = a")
    case True
    have "slots_in W (release rid rs) \<le> slots_in W rs"
      by (rule slots_in_release_le)
    then have "length (filter (\<lambda>t. holds_slot t \<and> workflowID t \<in> W) (release rid rs)) \<le>
        length (filter (\<lambda>t. holds_slot t \<and> workflowID t \<in> W) rs)"
      by (simp add: slots_in_def)
    with True Cons.prems show ?thesis
      by (simp add: slots_in_def) (simp add: release_def)
  next
    case False
    with Cons have "Suc (slots_in W (release rid rs)) \<le> slots_in W rs" by simp
    then have "Suc (length (filter (\<lambda>t. holds_slot t \<and> workflowID t \<in> W) (release rid rs))) \<le>
        length (filter (\<lambda>t. holds_slot t \<and> workflowID t \<in> W) rs)"
      by (simp add: slots_in_def)
    then show ?thesis
      by (simp add: slots_in_def) (auto simp: release_def)
  qed
qed

lemma running_le_slots:
  "\<forall>t \<in> set rs. state t = Running \<longrightarrow> holds_slot t \<Longrightarrow>
   length (filter (\<lambda>t. state t = Running \<and> workflowID t \<in> W) rs) \<le> slots_in W rs"
  by (induction rs) (auto simp: slots_in_def)


subsection \<open>Every call keeps the invariant\<close>

lemma same_run_id:
  "distinct (map run_id rs) \<Longrightarrow> t \<in> set rs \<Longrightarrow> t' \<in> set rs \<Longrightarrow> run_id t' = run_id t \<Longrightarrow>
   t' = t"
  by (meson distinct_map inj_onD)

lemma count_up_simps [simp]:
  "runningGlobal (count_up w s) = runningGlobal s + 1"
  "runningPerWorkflow (count_up w s) wid = runningPerWorkflow s wid + (if wid = w then 1 else 0)"
  "runs (count_up w s) = runs s"
  "queueGlobal (count_up w s) = queueGlobal s"
  "queuePerWorkflow (count_up w s) = queuePerWorkflow s"
  by (simp_all add: count_up_def)

lemma count_down_simps [simp]:
  "runningGlobal (count_down w s) = runningGlobal s - 1"
  "runningPerWorkflow (count_down w s) wid = runningPerWorkflow s wid - (if wid = w then 1 else 0)"
  "runs (count_down w s) = runs s"
  "queueGlobal (count_down w s) = queueGlobal s"
  "queuePerWorkflow (count_down w s) = queuePerWorkflow s"
  by (simp_all add: count_down_def)

lemma set_state_keeps_slots:
  "\<forall>t \<in> set rs. state t = Running \<longrightarrow> holds_slot t \<Longrightarrow> st \<noteq> Running \<Longrightarrow>
   \<forall>t \<in> set (set_state rid st rs). state t = Running \<longrightarrow> holds_slot t"
  by (auto simp: set_state_def)

lemma adm_inv_init:
  "0 \<le> sint (MaxParallel (Overall p)) \<Longrightarrow> 0 \<le> sint (MaxParallel (SingleWorkflow p)) \<Longrightarrow>
   adm_inv p init_admission"
  by (simp add: adm_inv_def init_admission_def slots_in_def)

lemma adm_inv_admit_queued:
  assumes inv: "adm_inv p s" and f: "find_run rid (runs s) = Some t"
    and can: "can_admit p (workflowID t) s"
  shows "adm_inv p (admit_queued rid (workflowID t) s)"
proof -
  let ?s' = "admit_queued rid (workflowID t) s"
  have runs': "runs ?s' = set_run rid Running True (runs s)"
    and g': "runningGlobal ?s' = runningGlobal s + 1"
    and w': "\<And>wid. runningPerWorkflow ?s' wid =
        runningPerWorkflow s wid + (if wid = workflowID t then 1 else 0)"
    by (simp_all add: admit_queued_def)
  from inv have d: "distinct (map run_id (runs s))"
    by (simp add: adm_inv_def)
  have 1: "distinct (map run_id (runs ?s'))"
    using d by (simp add: runs')
  have 2: "\<forall>t \<in> set (runs ?s'). state t = Running \<longrightarrow> holds_slot t"
    using inv by (auto simp: runs' set_run_def adm_inv_def)
  have 3: "int (slots_in UNIV (runs ?s')) \<le> runningGlobal ?s'"
    using slots_in_set_run [OF d f, of UNIV Running True] inv
    by (simp add: runs' g' adm_inv_def)
  have 4: "int (slots_in {wid} (runs ?s')) \<le> runningPerWorkflow ?s' wid" for wid
  proof -
    from inv have "int (slots_in {wid} (runs s)) \<le> runningPerWorkflow s wid"
      by (simp add: adm_inv_def)
    with slots_in_set_run [OF d f, of "{wid}" Running True] show ?thesis
      by (auto simp: runs' w' split: if_splits)
  qed
  have 5: "runningGlobal ?s' \<le> sint (MaxParallel (Overall p))"
    using can by (simp add: g' can_admit_def)
  have 6: "runningPerWorkflow ?s' wid \<le> sint (MaxParallel (SingleWorkflow p))" for wid
    using can inv by (auto simp: w' can_admit_def adm_inv_def)
  from 1 2 3 4 5 6 show ?thesis
    unfolding adm_inv_def by blast
qed

lemma adm_inv_promote: "adm_inv p s \<Longrightarrow> adm_inv p (promote p q s)"
proof (induction q arbitrary: s)
  case Nil
  then show ?case by simp
next
  case (Cons rid rest)
  show ?case
  proof (cases "find_run rid (runs s)")
    case None
    with Cons show ?thesis by simp
  next
    case (Some t)
    show ?thesis
    proof (cases "can_admit p (workflowID t) s")
      case True
      with Some Cons.prems have "adm_inv p (admit_queued rid (workflowID t) s)"
        by (simp add: adm_inv_admit_queued)
      then have "adm_inv p (promote p rest (admit_queued rid (workflowID t) s))"
        by (rule Cons.IH)
      with Some True show ?thesis by simp
    next
      case False
      with Some Cons show ?thesis by simp
    qed
  qed
qed

lemma adm_inv_request:
  assumes inv: "adm_inv p s" and fresh: "run_id r \<notin> set (map run_id (runs s))"
  shows "adm_inv p (snd (RequestAdmission p r s))"
proof (cases "can_admit p (workflowID r) s")
  case True
  let ?s' = "(count_up (workflowID r) s)\<lparr>runs := runs s @ [track r Running True]\<rparr>"
  have runs': "runs ?s' = runs s @ [track r Running True]"
    and g': "runningGlobal ?s' = runningGlobal s + 1"
    by simp_all
  have w': "runningPerWorkflow ?s' wid =
        runningPerWorkflow s wid + (if wid = workflowID r then 1 else 0)" for wid
    by simp
  have 1: "distinct (map run_id (runs ?s'))"
    using inv fresh by (simp add: adm_inv_def track_def)
  have 2: "\<forall>t \<in> set (runs ?s'). state t = Running \<longrightarrow> holds_slot t"
    using inv by (auto simp: adm_inv_def track_def)
  have 3: "int (slots_in UNIV (runs ?s')) \<le> runningGlobal ?s'"
    using inv by (simp add: adm_inv_def slots_in_append)
  have 4: "int (slots_in {wid} (runs ?s')) \<le> runningPerWorkflow ?s' wid" for wid
  proof -
    from inv have "int (slots_in {wid} (runs s)) \<le> runningPerWorkflow s wid"
      by (simp add: adm_inv_def)
    then show ?thesis
      by (auto simp: slots_in_append track_def)
  qed
  have 5: "runningGlobal ?s' \<le> sint (MaxParallel (Overall p))"
    using True by (simp add: can_admit_def)
  have 6: "runningPerWorkflow ?s' wid \<le> sint (MaxParallel (SingleWorkflow p))" for wid
    using True inv by (auto simp: can_admit_def adm_inv_def)
  from 1 2 3 4 5 6 have "adm_inv p ?s'"
    unfolding adm_inv_def by blast
  with True show ?thesis by (simp add: RequestAdmission_def)
next
  case False
  show ?thesis
  proof (cases "can_enqueue p (workflowID r) s")
    case True
    have "adm_inv p (s\<lparr>queueGlobal := queueGlobal s @ [run_id r],
              queuePerWorkflow := (queuePerWorkflow s)
                (workflowID r := queuePerWorkflow s (workflowID r) @ [run_id r]),
              runs := runs s @ [track r Queued False]\<rparr>)"
      using inv fresh by (auto simp: adm_inv_def slots_in_append track_def)
    with False True show ?thesis by (simp add: RequestAdmission_def)
  next
    case nq: False
    with False inv show ?thesis by (simp add: RequestAdmission_def)
  qed
qed

lemma adm_inv_terminate:
  assumes inv: "adm_inv p s" and tst: "terminal st"
  shows "adm_inv p (s\<lparr>runs := set_state rid st (runs s)\<rparr>)"
proof -
  from tst have "st \<noteq> Running" by (auto simp: terminal_def)
  moreover from inv have "\<forall>t \<in> set (runs s). state t = Running \<longrightarrow> holds_slot t"
    by (simp add: adm_inv_def)
  ultimately have "\<forall>t \<in> set (set_state rid st (runs s)). state t = Running \<longrightarrow> holds_slot t"
    by (simp add: set_state_keeps_slots)
  with inv show ?thesis by (simp add: adm_inv_def)
qed

lemma adm_inv_notify:
  assumes inv: "adm_inv p s" and f: "find_run rid (runs s) = Some t"
    and tst: "terminal (state t)" and slot: "holds_slot t"
  shows "adm_inv p (NotifyCompletion p t s)"
proof -
  let ?s1 = "(count_down (workflowID t) s)\<lparr>runs := release (run_id t) (runs s)\<rparr>"
  from f have tin: "t \<in> set (runs s)" and tid: "run_id t = rid"
    by (simp_all add: find_run_Some)
  from inv have d: "distinct (map run_id (runs s))"
    by (simp add: adm_inv_def)
  have runs': "runs ?s1 = release (run_id t) (runs s)"
    by simp
  have 1: "distinct (map run_id (runs ?s1))"
    using d by simp
  have 2: "\<forall>u \<in> set (runs ?s1). state u = Running \<longrightarrow> holds_slot u"
  proof
    fix u assume "u \<in> set (runs ?s1)"
    then obtain v where v: "v \<in> set (runs s)"
        and u: "u = (if run_id v = run_id t then v\<lparr>holds_slot := False\<rparr> else v)"
      by (auto simp: release_def)
    show "state u = Running \<longrightarrow> holds_slot u"
    proof (cases "run_id v = run_id t")
      case True
      with d tin v have "v = t" by (rule same_run_id)
      with u tst show ?thesis by (auto simp: terminal_def)
    next
      case False
      with u v inv show ?thesis by (simp add: adm_inv_def)
    qed
  qed
  have 3: "int (slots_in UNIV (runs ?s1)) \<le> runningGlobal ?s1"
    using slots_in_release_less [OF tin refl slot, of UNIV] inv
    by (simp add: adm_inv_def)
  have 4: "int (slots_in {wid} (runs ?s1)) \<le> runningPerWorkflow ?s1 wid" for wid
  proof -
    from inv have le: "int (slots_in {wid} (runs s)) \<le> runningPerWorkflow s wid"
      by (simp add: adm_inv_def)
    show ?thesis
    proof (cases "wid = workflowID t")
      case True
      with slots_in_release_less [OF tin refl slot, of "{wid}"] le show ?thesis
        by simp
    next
      case False
      with slots_in_release_le [of "{wid}" "run_id t" "runs s"] le show ?thesis
        by simp
    qed
  qed
  have 5: "runningGlobal ?s1 \<le> sint (MaxParallel (Overall p))"
    using inv by (simp add: adm_inv_def)
  have 6: "runningPerWorkflow ?s1 wid \<le> sint (MaxParallel (SingleWorkflow p))" for wid
  proof -
    from inv have "runningPerWorkflow s wid \<le> sint (MaxParallel (SingleWorkflow p))"
      by (simp add: adm_inv_def)
    then show ?thesis by auto
  qed
  from 1 2 3 4 5 6 have "adm_inv p ?s1"
    unfolding adm_inv_def by blast
  then have "adm_inv p (promote p (queueGlobal ?s1) ?s1)"
    by (rule adm_inv_promote)
  then show ?thesis by (simp add: NotifyCompletion_def Let_def)
qed

lemma adm_inv_step: "adm_inv p s \<Longrightarrow> step p c s = Some s' \<Longrightarrow> adm_inv p s'"
proof (cases c)
  case (CallRequestAdmission rid wid)
  assume "adm_inv p s" and "step p c s = Some s'"
  with CallRequestAdmission
    adm_inv_request [of p s "\<lparr>run_id = rid, workflowID = wid, state = Pending\<rparr>"]
  show ?thesis by (auto split: if_splits)
next
  case (RunTerminates rid st)
  assume "adm_inv p s" and "step p c s = Some s'"
  with RunTerminates show ?thesis
    by (auto split: option.splits if_splits simp: adm_inv_terminate)
next
  case (CallNotifyCompletion rid)
  assume "adm_inv p s" and "step p c s = Some s'"
  with CallNotifyCompletion show ?thesis
    by (auto split: option.splits if_splits simp: adm_inv_notify)
qed

lemma adm_inv_exec: "adm_inv p s \<Longrightarrow> exec p cs s = Some s' \<Longrightarrow> adm_inv p s'"
proof (induction cs arbitrary: s)
  case Nil
  then show ?case by simp
next
  case (Cons c cs)
  then show ?case
    by (auto split: option.splits dest: adm_inv_step)
qed

lemma exec_append:
  "exec p (cs @ ds) s = (case exec p cs s of None \<Rightarrow> None | Some s1 \<Rightarrow> exec p ds s1)"
  by (induction cs arbitrary: s) (auto split: option.splits)

lemma adm_inv_bounds:
  assumes "adm_inv p s"
  shows "int (length (running_runs s)) \<le> sint (MaxParallel (Overall p))"
    and "int (length (running_runs_of wid s)) \<le> sint (MaxParallel (SingleWorkflow p))"
proof -
  from assms have r: "\<forall>t \<in> set (runs s). state t = Running \<longrightarrow> holds_slot t"
    by (simp add: adm_inv_def)
  from running_le_slots [OF r, of UNIV] have "length (running_runs s) \<le> slots_in UNIV (runs s)"
    by (simp add: running_runs_def)
  with assms show "int (length (running_runs s)) \<le> sint (MaxParallel (Overall p))"
    by (simp add: adm_inv_def)
  from running_le_slots [OF r, of "{wid}"]
  have "length (running_runs_of wid s) \<le> slots_in {wid} (runs s)"
    by (simp add: running_runs_of_def)
  moreover from assms have "int (slots_in {wid} (runs s)) \<le> runningPerWorkflow s wid"
      and "runningPerWorkflow s wid \<le> sint (MaxParallel (SingleWorkflow p))"
    by (simp_all add: adm_inv_def)
  ultimately show "int (length (running_runs_of wid s)) \<le> sint (MaxParallel (SingleWorkflow p))"
    by linarith
qed

subsection \<open>The worked examples\<close>

lemmas adm_eval = example_limits_def example_calls_def init_admission_def RequestAdmission_def
  can_admit_def can_enqueue_def count_up_def count_down_def NotifyCompletion_def
  admit_queued_def find_run_def set_run_def set_state_def release_def track_def terminal_def
  running_runs_def running_runs_of_def second_limits_def

lemma example_results:
  "fst (request_all example_limits [(1, 7), (2, 7), (3, 7), (4, 7)] init_admission) =
     [Admitted, Admitted, Enqueued, Rejected QueueFull]"
  by (simp add: adm_eval)

lemma second_results:
  "fst (request_all second_limits [(1, 7), (2, 7), (3, 8)] init_admission) =
     [Admitted, Enqueued, Admitted]"
  by (simp add: adm_eval)

lemma example_exec_4:
  "map_option (\<lambda>s. (runningGlobal s, runningPerWorkflow s 7, queueGlobal s, queuePerWorkflow s 7, runs s))
     (exec example_limits (take 4 example_calls) init_admission) =
   Some (2, 2, [3], [3],
     [\<lparr>run_id = 1, workflowID = 7, state = Running, holds_slot = True\<rparr>,
      \<lparr>run_id = 2, workflowID = 7, state = Running, holds_slot = True\<rparr>,
      \<lparr>run_id = 3, workflowID = 7, state = Queued, holds_slot = False\<rparr>])"
  by (simp add: adm_eval)

lemma example_exec_6:
  "map_option (\<lambda>s. (runningGlobal s, runningPerWorkflow s 7, queueGlobal s, queuePerWorkflow s 7, runs s))
     (exec example_limits example_calls init_admission) =
   Some (2, 2, [], [],
     [\<lparr>run_id = 1, workflowID = 7, state = Completed, holds_slot = False\<rparr>,
      \<lparr>run_id = 2, workflowID = 7, state = Running, holds_slot = True\<rparr>,
      \<lparr>run_id = 3, workflowID = 7, state = Running, holds_slot = True\<rparr>])"
  by (simp add: adm_eval)

subsection \<open>The limits on running executions\<close>

text \<open>
  Claim C8. With limits that are not negative, start from the controller with no runs
  and let the collaborators make any sequence of calls that keeps their contract
  (admission is requested for runs not yet taken over, \<open>NotifyCompletion\<close> is called
  once for a run that became terminal from \<open>Running\<close>), each call atomic. Then after
  every number \<open>n\<close> of these calls the runs in state \<open>Running\<close> are at most
  \<open>Overall.MaxParallel\<close>, and those of any one workflow at most
  \<open>SingleWorkflow.MaxParallel\<close>.
\<close>

theorem parallelism_limits_respected:
  assumes "0 \<le> sint (MaxParallel (Overall p))" and "0 \<le> sint (MaxParallel (SingleWorkflow p))"
    and "exec p calls init_admission = Some s_end"
  shows "\<exists>s. exec p (take n calls) init_admission = Some s \<and>
           int (length (running_runs s)) \<le> sint (MaxParallel (Overall p)) \<and>
           (\<forall>wid. int (length (running_runs_of wid s)) \<le> sint (MaxParallel (SingleWorkflow p)))"
proof -
  obtain s where s: "exec p (take n calls) init_admission = Some s"
    using exec_append [of p "take n calls" "drop n calls" init_admission] assms(3)
    by (auto split: option.splits)
  from assms(1,2) have "adm_inv p init_admission"
    by (rule adm_inv_init)
  then have "adm_inv p s" using s
    by (rule adm_inv_exec)
  with s adm_inv_bounds [of p s] show ?thesis by simp
qed

theorem parallelism_limits_respected_witness:
  "0 \<le> sint (MaxParallel (Overall example_limits)) \<and>
   0 \<le> sint (MaxParallel (SingleWorkflow example_limits)) \<and>
   exec example_limits example_calls init_admission =
     Some (the (exec example_limits example_calls init_admission)) \<and>
   map_option running_runs (exec example_limits (take 4 example_calls) init_admission) =
     Some [\<lparr>run_id = 1, workflowID = 7, state = Running, holds_slot = True\<rparr>,
           \<lparr>run_id = 2, workflowID = 7, state = Running, holds_slot = True\<rparr>] \<and>
   map_option running_runs (exec example_limits (take 6 example_calls) init_admission) =
     Some [\<lparr>run_id = 2, workflowID = 7, state = Running, holds_slot = True\<rparr>,
           \<lparr>run_id = 3, workflowID = 7, state = Running, holds_slot = True\<rparr>] \<and>
   (\<exists>s. exec example_limits (take 4 example_calls) init_admission = Some s \<and>
        int (length (running_runs s)) \<le> 2 \<and>
        (\<forall>wid. int (length (running_runs_of wid s)) \<le> 2))"
proof -
  have l1: "0 \<le> sint (MaxParallel (Overall example_limits))"
    and l2: "0 \<le> sint (MaxParallel (SingleWorkflow example_limits))"
    by (simp_all add: example_limits_def)
  have run: "exec example_limits example_calls init_admission =
      Some (the (exec example_limits example_calls init_admission))"
    by (simp add: adm_eval)
  have r4: "map_option running_runs (exec example_limits (take 4 example_calls) init_admission) =
     Some [\<lparr>run_id = 1, workflowID = 7, state = Running, holds_slot = True\<rparr>,
           \<lparr>run_id = 2, workflowID = 7, state = Running, holds_slot = True\<rparr>]"
    by (simp add: adm_eval)
  have r6: "map_option running_runs (exec example_limits (take 6 example_calls) init_admission) =
     Some [\<lparr>run_id = 2, workflowID = 7, state = Running, holds_slot = True\<rparr>,
           \<lparr>run_id = 3, workflowID = 7, state = Running, holds_slot = True\<rparr>]"
    by (simp add: adm_eval)
  from parallelism_limits_respected [OF l1 l2 run, of 4]
  have "\<exists>s. exec example_limits (take 4 example_calls) init_admission = Some s \<and>
        int (length (running_runs s)) \<le> 2 \<and>
        (\<forall>wid. int (length (running_runs_of wid s)) \<le> 2)"
    by (simp add: example_limits_def)
  with l1 l2 run r4 r6 show ?thesis by blast
qed

end
